theory Spec2Isabelle
  imports Complex_Main
begin

section \<open>Numbers\<close>

text \<open>
  The scripts compute with JavaScript numbers. The model uses exact rationals for money,
  odds, deltas and advantages and integers for counters and Fibonacci values; \<open>NaN\<close> and the
  infinities are not values of the model. Where the source tests \<open>Number.isFinite\<close> on a
  value that was parsed from text, the parsed value is a \<open>rat option\<close> and \<open>None\<close> is the
  unparsable or non-finite case.
\<close>

definition js_round :: "rat \<Rightarrow> int" where
  \<comment> \<open>\<open>Math.round\<close>: the nearest integer, halves towards plus infinity.\<close>
  "js_round x = \<lfloor>x + 1 / 2\<rfloor>"

definition js_floor :: "rat \<Rightarrow> rat" where
  \<comment> \<open>\<open>Math.floor\<close>, as a number again.\<close>
  "js_floor x = of_int \<lfloor>x\<rfloor>"

definition toFixed :: "nat \<Rightarrow> rat \<Rightarrow> rat" where
  \<comment> \<open>\<open>parseFloat(x.toFixed(d))\<close>: \<open>d\<close> decimals, halves away from zero.\<close>
  "toFixed d x = (if x < 0 then - (of_int \<lfloor>(- x) * 10 ^ d + 1 / 2\<rfloor> / 10 ^ d)
                  else of_int \<lfloor>x * 10 ^ d + 1 / 2\<rfloor> / 10 ^ d)"

section \<open>Strategy sweep: \<open>simulateStrategy\<close> and its helpers\<close>

subsection \<open>The shared Fibonacci memo table\<close>

text \<open>
  \<open>fibCache\<close> is a module-level array, initially \<open>[1, 1]\<close>, that \<open>getFibNumber\<close> only ever
  appends to. The model passes it in and returns it. The loop reads the last two entries;
  the array never has fewer than two.
\<close>

definition fibCache_init :: "int list" where
  "fibCache_init = [1, 1]"

function fibCache_fill :: "int \<Rightarrow> int list \<Rightarrow> int list" where
  "fibCache_fill step fibCache =
     (if int (length fibCache) \<le> step
      then fibCache_fill step
             (fibCache @ [fibCache ! (length fibCache - 1) + fibCache ! (length fibCache - 2)])
      else fibCache)"
  by pat_completeness auto
termination
  by (relation "measure (\<lambda>(step, fibCache). nat (step + 1 - int (length fibCache)))") auto

declare fibCache_fill.simps [simp del]

definition getFibNumber :: "int \<Rightarrow> int list \<Rightarrow> int \<times> int list" where
  "getFibNumber step fibCache =
     (if step \<le> 0 then (1, fibCache)
      else let filled = fibCache_fill step fibCache in (filled ! nat step, filled))"

text \<open>
  The standard Fibonacci sequence 1, 1, 2, 3, 5, ... that the memoized function is compared
  with; this definition follows the specification, not the source.
\<close>

fun fib_standard :: "nat \<Rightarrow> int" where
  "fib_standard 0 = 1"
| "fib_standard (Suc 0) = 1"
| "fib_standard (Suc (Suc n)) = fib_standard (Suc n) + fib_standard n"

text \<open>The memo table after a history of earlier calls, each with its own step argument.\<close>

definition fibCache_after :: "int list \<Rightarrow> int list" where
  "fibCache_after history = foldl (\<lambda>fibCache step. snd (getFibNumber step fibCache)) fibCache_init history"

subsection \<open>Configurations, matches and the run state\<close>

definition INITIAL_BANK :: rat where
  "INITIAL_BANK = 1000"

definition MAX_BET :: rat where
  "MAX_BET = 10000"

definition DELTA_THRESHOLDS :: "rat list" where
  "DELTA_THRESHOLDS = [5, 10, 15, 20, 25, 30, 35, 40, 45, 50, 75]"

text \<open>
  A combo is a plain object. A field that a stake template does not set is \<open>undefined\<close> in
  the source and is never read for that stake type; the record gives it 0.
\<close>

record combo =
  strategy_group :: string
  stake_type :: string
  flat_amount :: rat
  percent :: rat
  unit :: rat
  hero_filter :: string
  odds_condition :: string

text \<open>
  A match as \<open>loadMatches\<close> pushes it. \<open>loadMatches\<close> only pushes rows whose delta and odds
  are finite, so the \<open>Number.isFinite\<close> tests of \<open>simulateStrategy\<close> are always true on them.
\<close>

record sim_match =
  deltaAbs :: rat
  deltaFavTeam :: string
  deltaDogTeam :: string
  deltaFavIsTeam1 :: bool
  favOdds :: rat
  dogOdds :: rat
  oddsRelation :: string
  winner :: string
  team1Pos :: nat
  team1Neg :: nat
  team2Pos :: nat
  team2Neg :: nat

record sim_state =
  bank :: rat
  bets :: nat
  wins :: nat
  peak :: rat
  maxDrawdown :: rat
  maxStake :: rat
  fibStep :: int
  maxStepReached :: int

datatype sim_error = UnknownStakeType string

definition sim_init :: sim_state where
  "sim_init = \<lparr>bank = INITIAL_BANK, bets = 0, wins = 0, peak = INITIAL_BANK, maxDrawdown = 0,
               maxStake = 0, fibStep = 0, maxStepReached = 0\<rparr>"

definition heroFilterSatisfied :: "sim_match \<Rightarrow> string \<Rightarrow> bool" where
  "heroFilterSatisfied m filter_name =
     (if filter_name = ''none'' then True
      else let favPos = (if deltaFavIsTeam1 m then team1Pos m else team2Pos m);
               oppNeg = (if deltaFavIsTeam1 m then team2Neg m else team1Neg m)
           in if filter_name = ''4+4-'' then favPos \<ge> 4 \<and> oppNeg \<ge> 4
              else if filter_name = ''5+5-'' then favPos \<ge> 5 \<and> oppNeg \<ge> 5
              else True)"

definition computeStake :: "rat \<Rightarrow> combo \<Rightarrow> int \<Rightarrow> int list \<Rightarrow> sim_error + (rat \<times> int list)" where
  "computeStake bnk c step fibCache =
     (if bnk \<le> 0 then Inr (0, fibCache)
      else if stake_type c = ''flat'' then Inr (min (flat_amount c) bnk, fibCache)
      else if stake_type c = ''pct_bankroll'' then Inr (min (bnk * percent c) bnk, fibCache)
      else if stake_type c = ''fibonacci''
        then (let (fibValue, fibCache') = getFibNumber step fibCache
              in Inr (of_int fibValue * unit c, fibCache'))
      else Inl (UnknownStakeType (stake_type c)))"

text \<open>
  The part of the loop body from \<open>const stepBefore = fibStep\<close> to the end: the bet is
  placed with the given stake.
\<close>

definition place_bet :: "combo \<Rightarrow> sim_match \<Rightarrow> rat \<Rightarrow> sim_state \<Rightarrow> sim_state" where
  "place_bet c m stake st =
     (let stepBefore = fibStep st;
          st1 = st\<lparr>bank := bank st - stake, bets := bets st + 1,
                   maxStake := (if stake > maxStake st then stake else maxStake st)\<rparr>;
          betWon = (winner m = deltaFavTeam m);
          st2 = (if stake_type c = ''fibonacci'' \<and> stepBefore > maxStepReached st1
                 then st1\<lparr>maxStepReached := stepBefore\<rparr> else st1);
          st3 = (if betWon
                 then (let w = st2\<lparr>wins := wins st2 + 1, bank := bank st2 + stake * favOdds m\<rparr>
                       in if stake_type c = ''fibonacci''
                          then w\<lparr>fibStep := (if stepBefore \<le> 1 then 0 else stepBefore - 2)\<rparr>
                          else w)
                 else (if stake_type c = ''fibonacci''
                       then st2\<lparr>fibStep := stepBefore + 1\<rparr> else st2))
      in if bank st3 > peak st3 then st3\<lparr>peak := bank st3\<rparr>
         else (let dd = peak st3 - bank st3
               in if dd > maxDrawdown st3 then st3\<lparr>maxDrawdown := dd\<rparr> else st3))"

text \<open>
  One iteration of the \<open>for\<close> loop after the bust test at its head. A \<open>continue\<close> returns
  the state as it is; the memo table may have grown even when no bet is placed.
\<close>

definition simulate_match ::
  "combo \<Rightarrow> rat \<Rightarrow> sim_match \<Rightarrow> sim_state \<times> int list \<Rightarrow> sim_error + (sim_state \<times> int list)" where
  "simulate_match c deltaThreshold m sc =
     (let (st, fibCache) = sc in
      if deltaAbs m < deltaThreshold then Inr sc
      else if odds_condition c = ''favorite'' \<and> oddsRelation m \<noteq> ''favorite'' then Inr sc
      else if odds_condition c = ''underdog'' \<and> oddsRelation m \<noteq> ''underdog'' then Inr sc
      else if \<not> heroFilterSatisfied m (hero_filter c) then Inr sc
      else if favOdds m \<le> 1 then Inr sc
      else (case computeStake (bank st) c (fibStep st) fibCache of
              Inl e \<Rightarrow> Inl e
            | Inr (desiredStake, fibCache') \<Rightarrow>
                (let stake = min desiredStake (min MAX_BET (bank st))
                 in if stake \<le> 0 then Inr (st, fibCache')
                    else Inr (place_bet c m stake st, fibCache'))))"


fun simulate_loop ::
  "combo \<Rightarrow> rat \<Rightarrow> sim_match list \<Rightarrow> sim_state \<times> int list \<Rightarrow> sim_error + (sim_state \<times> int list)" where
  "simulate_loop c deltaThreshold [] sc = Inr sc"
| "simulate_loop c deltaThreshold (m # ms) sc =
     (if bank (fst sc) \<le> 0 then Inr ((fst sc)\<lparr>bank := 0\<rparr>, snd sc)
      else (case simulate_match c deltaThreshold m sc of
              Inl e \<Rightarrow> Inl e
            | Inr sc' \<Rightarrow> simulate_loop c deltaThreshold ms sc'))"

record sim_stats =
  stats_strategy_group :: string
  stats_hero_filter :: string
  stats_odds_condition :: string
  delta_threshold :: rat
  stats_bets :: nat
  stats_wins :: nat
  win_pct :: int
  final_bank :: int
  max_drawdown :: int
  max_stake :: int
  max_step :: int

definition summarize :: "combo \<Rightarrow> rat \<Rightarrow> sim_state \<Rightarrow> sim_stats" where
  "summarize c deltaThreshold st =
     \<lparr>stats_strategy_group = strategy_group c,
      stats_hero_filter = hero_filter c,
      stats_odds_condition = odds_condition c,
      delta_threshold = deltaThreshold,
      stats_bets = bets st,
      stats_wins = wins st,
      win_pct = (if bets st = 0 then 0 else js_round (of_nat (wins st) / of_nat (bets st) * 100)),
      final_bank = js_round (bank st),
      max_drawdown = js_round (maxDrawdown st),
      max_stake = js_round (maxStake st),
      max_step = (if stake_type c = ''fibonacci'' then maxStepReached st else 0)\<rparr>"

definition simulateStrategy ::
  "sim_match list \<Rightarrow> combo \<Rightarrow> rat \<Rightarrow> int list \<Rightarrow> sim_error + (sim_stats \<times> int list)" where
  "simulateStrategy matches c deltaThreshold fibCache =
     (case simulate_loop c deltaThreshold matches (sim_init, fibCache) of
        Inl e \<Rightarrow> Inl e
      | Inr (st, fibCache') \<Rightarrow> Inr (summarize c deltaThreshold st, fibCache'))"

text \<open>The filters of one loop iteration taken together: the match reaches the staking code.\<close>

definition passes_filters :: "combo \<Rightarrow> rat \<Rightarrow> sim_match \<Rightarrow> bool" where
  "passes_filters c deltaThreshold m \<longleftrightarrow>
     \<not> deltaAbs m < deltaThreshold \<and>
     \<not> (odds_condition c = ''favorite'' \<and> oddsRelation m \<noteq> ''favorite'') \<and>
     \<not> (odds_condition c = ''underdog'' \<and> oddsRelation m \<noteq> ''underdog'') \<and>
     heroFilterSatisfied m (hero_filter c) \<and>
     \<not> favOdds m \<le> 1"

text \<open>The stake parameter of a known staking policy is positive.\<close>

definition stake_pos :: "combo \<Rightarrow> bool" where
  "stake_pos c \<longleftrightarrow>
     (stake_type c = ''flat'' \<and> 0 < flat_amount c) \<or>
     (stake_type c = ''pct_bankroll'' \<and> 0 < percent c) \<or>
     (stake_type c = ''fibonacci'' \<and> 0 < unit c)"

text \<open>The memo table holds a prefix of the standard sequence, at least its first two values.\<close>

definition cache_ok :: "int list \<Rightarrow> bool" where
  "cache_ok fibCache \<longleftrightarrow>
     2 \<le> length fibCache \<and> (\<forall>i < length fibCache. fibCache ! i = fib_standard i)"

subsection \<open>\<open>buildCombos\<close> and the sweep of \<open>main\<close>\<close>

definition oddsConditions :: "string list" where
  "oddsConditions = [''any'', ''underdog'', ''favorite'']"

definition flat100 :: "rat \<Rightarrow> combo" where
  "flat100 amount = \<lparr>strategy_group = ''Flat100'', stake_type = ''flat'', flat_amount = amount,
                     percent = 0, unit = 0, hero_filter = [], odds_condition = []\<rparr>"

definition flat5 :: "rat \<Rightarrow> combo" where
  "flat5 amount = \<lparr>strategy_group = ''Flat5pct'', stake_type = ''flat'', flat_amount = amount,
                   percent = 0, unit = 0, hero_filter = [], odds_condition = []\<rparr>"

definition pct5 :: combo where
  "pct5 = \<lparr>strategy_group = ''Pct5'', stake_type = ''pct_bankroll'', flat_amount = 0,
            percent = 5 / 100, unit = 0, hero_filter = [], odds_condition = []\<rparr>"

definition fib1 :: "rat \<Rightarrow> combo" where
  "fib1 u = \<lparr>strategy_group = (if u = 1 then ''Fibo1'' else ''Fibo5''), stake_type = ''fibonacci'',
             flat_amount = 0, percent = 0, unit = u, hero_filter = [], odds_condition = []\<rparr>"

text \<open>Every push spreads a template and adds the hero filter and the odds condition.\<close>

definition push3 :: "combo \<Rightarrow> string \<Rightarrow> combo list" where
  "push3 template heroFilter =
     map (\<lambda>oc. template\<lparr>hero_filter := heroFilter, odds_condition := oc\<rparr>) oddsConditions"

definition pushFlat :: "rat \<Rightarrow> string \<Rightarrow> combo list" where
  "pushFlat amount heroFilter = push3 (flat100 amount) heroFilter"

definition flatFiveAmount :: rat where
  "flatFiveAmount = INITIAL_BANK * (5 / 100)"

definition buildCombos :: "combo list" where
  "buildCombos =
     pushFlat 100 ''none'' @
     push3 pct5 ''none'' @
     pushFlat 100 ''4+4-'' @
     push3 (flat5 flatFiveAmount) ''4+4-'' @
     pushFlat 100 ''5+5-'' @
     push3 (flat5 flatFiveAmount) ''5+5-'' @
     push3 (fib1 1) ''none'' @
     push3 (fib1 1) ''4+4-'' @
     push3 (fib1 1) ''5+5-'' @
     push3 (fib1 5) ''none'' @
     push3 (fib1 5) ''4+4-'' @
     push3 (fib1 5) ''5+5-''"

text \<open>
  \<open>main\<close> runs every combo, in the order of \<open>buildCombos\<close>, at every threshold of
  \<open>DELTA_THRESHOLDS\<close> in turn, and writes one row per run in that order.
\<close>

definition sweep_pairs :: "(combo \<times> rat) list" where
  "sweep_pairs = concat (map (\<lambda>c. map (\<lambda>deltaThreshold. (c, deltaThreshold)) DELTA_THRESHOLDS) buildCombos)"

fun run_sweep ::
  "sim_match list \<Rightarrow> (combo \<times> rat) list \<Rightarrow> int list \<Rightarrow> sim_error + (sim_stats list \<times> int list)" where
  "run_sweep matches [] fibCache = Inr ([], fibCache)"
| "run_sweep matches ((c, deltaThreshold) # rest) fibCache =
     (case simulateStrategy matches c deltaThreshold fibCache of
        Inl e \<Rightarrow> Inl e
      | Inr (stats, fibCache') \<Rightarrow>
          (case run_sweep matches rest fibCache' of
             Inl e \<Rightarrow> Inl e
           | Inr (rows, fibCache'') \<Rightarrow> Inr (stats # rows, fibCache'')))"

definition main_rows :: "sim_match list \<Rightarrow> sim_error + (sim_stats list \<times> int list)" where
  "main_rows matches = run_sweep matches sweep_pairs fibCache_init"

text \<open>What identifies a row of the output, a run of the sweep, and a staking policy.\<close>

definition row_key :: "sim_stats \<Rightarrow> string \<times> string \<times> string \<times> rat" where
  "row_key s = (stats_strategy_group s, stats_hero_filter s, stats_odds_condition s, delta_threshold s)"

definition pair_key :: "combo \<times> rat \<Rightarrow> string \<times> string \<times> string \<times> rat" where
  "pair_key p = (strategy_group (fst p), hero_filter (fst p), odds_condition (fst p), snd p)"

definition policy_of :: "combo \<Rightarrow> string \<times> string \<times> rat \<times> rat \<times> rat" where
  "policy_of c = (strategy_group c, stake_type c, flat_amount c, percent c, unit c)"

definition known_stake_type :: "combo \<Rightarrow> bool" where
  "known_stake_type c \<longleftrightarrow>
     stake_type c = ''flat'' \<or> stake_type c = ''pct_bankroll'' \<or> stake_type c = ''fibonacci''"

text \<open>
  The generator as the specification words it, for comparison: the cross product of five
  staking policies, three hero filters and three odds conditions, policy first.
\<close>

definition spec_policies :: "string list" where
  "spec_policies = [''Flat100'', ''Pct5'', ''Flat5pct'', ''Fibo1'', ''Fibo5'']"

definition spec_hero_filters :: "string list" where
  "spec_hero_filters = [''none'', ''4+4-'', ''5+5-'']"

definition spec_cross_product :: "(string \<times> string \<times> string) list" where
  "spec_cross_product =
     concat (map (\<lambda>p. concat (map (\<lambda>h. map (\<lambda>oc. (p, h, oc)) oddsConditions) spec_hero_filters))
               spec_policies)"

definition combo_key :: "combo \<Rightarrow> string \<times> string \<times> string" where
  "combo_key c = (strategy_group c, hero_filter c, odds_condition c)"

section \<open>The hero matrix as the simulators read it\<close>

text \<open>
  A populated cell of \<open>win_rates\<close> is \<open>[advantage, winRate, games]\<close>, the first two as
  decimal strings; an unpopulated cell is \<open>null\<close>. \<open>cell_adv\<close> is the parsed first entry,
  \<open>None\<close> when that entry is \<open>null\<close>. A row or cell beyond the end of an array reads as
  \<open>undefined\<close>: \<open>js_nth\<close> gives \<open>None\<close>.
\<close>

record cs_cell =
  cell_adv :: "rat option"
  cell_wr :: rat
  cell_games :: nat

record cs_data =
  heroes :: "string list"
  heroes_wr :: "rat list"
  win_rates :: "cs_cell option list list"

definition js_nth :: "'a list \<Rightarrow> nat \<Rightarrow> 'a option" where
  "js_nth xs i = (if i < length xs then Some (xs ! i) else None)"

definition to_lower :: "char \<Rightarrow> char" where
  "to_lower ch =
     (case map_of (zip ''ABCDEFGHIJKLMNOPQRSTUVWXYZ'' ''abcdefghijklmnopqrstuvwxyz'') ch of
        Some l \<Rightarrow> l | None \<Rightarrow> ch)"

definition normalizeHeroName :: "string \<Rightarrow> string" where
  \<comment> \<open>\<open>name.toLowerCase().replace(/[^a-z0-9]/g, '')\<close> on ASCII names.\<close>
  "normalizeHeroName name =
     filter (\<lambda>ch. ch \<in> set ''abcdefghijklmnopqrstuvwxyz0123456789'') (map to_lower name)"

definition build_heroIndex :: "string list \<Rightarrow> (string \<rightharpoonup> nat)" where
  \<comment> \<open>\<open>heroes.forEach((name, idx) => heroIndex.set(normalize(name), idx))\<close>: a later name wins.\<close>
  "build_heroIndex names =
     fold (\<lambda>(name, idx) heroIndex. heroIndex(normalizeHeroName name \<mapsto> idx))
          (zip names [0 ..< length names]) Map.empty"

subsection \<open>\<open>download_recent_matches.js\<close>: hero lookup and hero-filter counts\<close>

fun heroNamesToIds_loop ::
  "string list \<Rightarrow> (string \<rightharpoonup> nat) \<Rightarrow> (string \<rightharpoonup> string) \<Rightarrow> nat list
     \<Rightarrow> nat list option \<times> (string \<rightharpoonup> string)" where
  "heroNamesToIds_loop [] heroIndex missingHeroes ids = (Some ids, missingHeroes)"
| "heroNamesToIds_loop (name # rest) heroIndex missingHeroes ids =
     (let normalized = normalizeHeroName name
      in case heroIndex normalized of
           None \<Rightarrow> (None, missingHeroes(normalized \<mapsto> name))
         | Some idx \<Rightarrow> heroNamesToIds_loop rest heroIndex missingHeroes (ids @ [idx]))"

definition heroNamesToIds ::
  "string list \<Rightarrow> (string \<rightharpoonup> nat) \<Rightarrow> (string \<rightharpoonup> string) \<Rightarrow> nat list option \<times> (string \<rightharpoonup> string)" where
  "heroNamesToIds heroNames heroIndex missingHeroes =
     heroNamesToIds_loop heroNames heroIndex missingHeroes []"

definition computeAdvantage :: "nat \<Rightarrow> nat list \<Rightarrow> cs_cell option list list \<Rightarrow> rat" where
  "computeAdvantage heroId enemyIds winRates =
     foldl (\<lambda>total enemyId.
              case js_nth winRates enemyId of
                None \<Rightarrow> total
              | Some row \<Rightarrow>
                  (case js_nth row heroId of
                     None \<Rightarrow> total
                   | Some None \<Rightarrow> total
                   | Some (Some cell) \<Rightarrow>
                       (case cell_adv cell of None \<Rightarrow> total | Some val \<Rightarrow> total + val)))
           0 enemyIds"

definition computeTeamCounts :: "nat list \<Rightarrow> nat list \<Rightarrow> cs_cell option list list \<Rightarrow> nat \<times> nat" where
  "computeTeamCounts heroIds enemyIds winRates =
     foldl (\<lambda>(pos, neg) heroId.
              let adv = computeAdvantage heroId enemyIds winRates
              in if adv > 0 then (pos + 1, neg)
                 else if adv < 0 then (pos, neg + 1)
                 else (pos, neg))
           (0, 0) heroIds"

definition classifyOddsRelation :: "rat \<Rightarrow> rat \<Rightarrow> string" where
  "classifyOddsRelation fav dog =
     (if fav < dog then ''favorite'' else if fav > dog then ''underdog'' else ''any'')"

text \<open>
  The per-hero advantage as the specification words it: the hero's own row, indexed by
  the opponent, absent cells contributing 0.
\<close>

definition spec_hero_advantage :: "cs_cell option list list \<Rightarrow> nat \<Rightarrow> nat list \<Rightarrow> rat" where
  "spec_hero_advantage matrix hero opps =
     sum_list (map (\<lambda>opp. case js_nth matrix hero of
                             None \<Rightarrow> 0
                           | Some row \<Rightarrow>
                               (case js_nth row opp of
                                  Some (Some cell) \<Rightarrow> (case cell_adv cell of None \<Rightarrow> 0 | Some val \<Rightarrow> val)
                                | _ \<Rightarrow> 0))
                   opps)"

subsection \<open>\<open>download_recent_matches.js\<close>: \<open>loadMatches\<close>\<close>

text \<open>
  A line of the CSV after \<open>parseCsvLine\<close>: blank, shorter than 14 columns, or a row with
  the columns that \<open>loadMatches\<close> reads, already split, trimmed and parsed
  (\<open>parseNumber\<close> gives \<open>None\<close> for a value that is not a finite number).
\<close>

record csv_row =
  row_deltaRaw :: "rat option"
  row_team1Heroes :: "string list"
  row_team2Heroes :: "string list"
  row_deltaFavTeam :: string
  row_team1Name :: string
  row_team2Name :: string
  row_team1Odds :: "rat option"
  row_team2Odds :: "rat option"
  row_winner :: string

datatype csv_line = BlankLine | ShortRow | Row csv_row

record load_state =
  matches :: "sim_match list"
  skip_blank :: nat
  skip_malformed :: nat
  skip_delta :: nat
  skip_heroes :: nat
  skip_heroLookup :: nat
  skip_odds :: nat
  skip_favored :: nat
  missingHeroes :: "string \<rightharpoonup> string"

definition load_init :: load_state where
  "load_init = \<lparr>matches = [], skip_blank = 0, skip_malformed = 0, skip_delta = 0, skip_heroes = 0,
                skip_heroLookup = 0, skip_odds = 0, skip_favored = 0, missingHeroes = Map.empty\<rparr>"

definition loadMatches_row ::
  "cs_cell option list list \<Rightarrow> (string \<rightharpoonup> nat) \<Rightarrow> csv_row \<Rightarrow> load_state \<Rightarrow> load_state" where
  "loadMatches_row winRates heroIndex row ls =
     (case row_deltaRaw row of
        None \<Rightarrow> ls\<lparr>skip_delta := skip_delta ls + 1\<rparr>
      | Some deltaRaw \<Rightarrow>
          if length (row_team1Heroes row) \<noteq> 5 \<or> length (row_team2Heroes row) \<noteq> 5
          then ls\<lparr>skip_heroes := skip_heroes ls + 1\<rparr>
          else
            (let (team1Ids, missing1) = heroNamesToIds (row_team1Heroes row) heroIndex (missingHeroes ls);
                 (team2Ids, missing2) = heroNamesToIds (row_team2Heroes row) heroIndex missing1;
                 ls1 = ls\<lparr>missingHeroes := missing2\<rparr>
             in case (team1Ids, team2Ids) of
                  (Some t1, Some t2) \<Rightarrow>
                    (let team1Counts = computeTeamCounts t1 t2 winRates;
                         team2Counts = computeTeamCounts t2 t1 winRates
                     in if row_deltaFavTeam row = [] \<or> row_team1Name row = [] \<or> row_team2Name row = []
                        then ls1\<lparr>skip_favored := skip_favored ls1 + 1\<rparr>
                        else if row_team1Name row \<noteq> row_deltaFavTeam row
                                \<and> row_team2Name row \<noteq> row_deltaFavTeam row
                        then ls1\<lparr>skip_favored := skip_favored ls1 + 1\<rparr>
                        else
                          (let favIsTeam1 = (row_team1Name row = row_deltaFavTeam row)
                           in case (row_team1Odds row, row_team2Odds row) of
                                (Some team1Odds, Some team2Odds) \<Rightarrow>
                                  if team1Odds \<le> 1 \<or> team2Odds \<le> 1
                                  then ls1\<lparr>skip_odds := skip_odds ls1 + 1\<rparr>
                                  else
                                    (let fav = (if favIsTeam1 then team1Odds else team2Odds);
                                         dog = (if favIsTeam1 then team2Odds else team1Odds)
                                     in ls1\<lparr>matches := matches ls1 @
                                          [\<lparr>deltaAbs = \<bar>deltaRaw\<bar>,
                                            deltaFavTeam = row_deltaFavTeam row,
                                            deltaDogTeam = (if favIsTeam1 then row_team2Name row
                                                            else row_team1Name row),
                                            deltaFavIsTeam1 = favIsTeam1,
                                            favOdds = fav, dogOdds = dog,
                                            oddsRelation = classifyOddsRelation fav dog,
                                            winner = row_winner row,
                                            team1Pos = fst team1Counts, team1Neg = snd team1Counts,
                                            team2Pos = fst team2Counts, team2Neg = snd team2Counts\<rparr>]\<rparr>)
                              | _ \<Rightarrow> ls1\<lparr>skip_odds := skip_odds ls1 + 1\<rparr>))
                | _ \<Rightarrow> ls1\<lparr>skip_heroLookup := skip_heroLookup ls1 + 1\<rparr>))"

definition loadMatches_line ::
  "cs_cell option list list \<Rightarrow> (string \<rightharpoonup> nat) \<Rightarrow> csv_line \<Rightarrow> load_state \<Rightarrow> load_state" where
  "loadMatches_line winRates heroIndex line ls =
     (case line of
        BlankLine \<Rightarrow> ls\<lparr>skip_blank := skip_blank ls + 1\<rparr>
      | ShortRow \<Rightarrow> ls\<lparr>skip_malformed := skip_malformed ls + 1\<rparr>
      | Row row \<Rightarrow> loadMatches_row winRates heroIndex row ls)"

definition loadMatches :: "csv_line list \<Rightarrow> cs_data \<Rightarrow> load_state" where
  "loadMatches lines heroData =
     fold (loadMatches_line (win_rates heroData) (build_heroIndex (heroes heroData))) lines load_init"

subsection \<open>The delta-percentage simulator: \<open>heroScore\<close>, \<open>delta\<close>, \<open>execute\<close>\<close>

datatype exec_error = HeroNotFound string

fun heroScore_adv ::
  "(string \<rightharpoonup> nat) \<Rightarrow> cs_cell option list \<Rightarrow> string list \<Rightarrow> rat \<Rightarrow> exec_error + rat" where
  "heroScore_adv idxMap row [] adv = Inr adv"
| "heroScore_adv idxMap row (opp # rest) adv =
     (case idxMap (normalizeHeroName opp) of
        None \<Rightarrow> Inl (HeroNotFound opp)
      | Some oppIdx \<Rightarrow>
          heroScore_adv idxMap row rest
            (case js_nth row oppIdx of
               Some (Some cell) \<Rightarrow> (case cell_adv cell of None \<Rightarrow> adv | Some val \<Rightarrow> adv + val)
             | _ \<Rightarrow> adv))"

definition heroScore :: "cs_data \<Rightarrow> string \<Rightarrow> string list \<Rightarrow> exec_error + rat" where
  "heroScore cs heroName opponentHeroes =
     (case build_heroIndex (heroes cs) (normalizeHeroName heroName) of
        None \<Rightarrow> Inl (HeroNotFound heroName)
      | Some idx \<Rightarrow>
          (let wr = (case js_nth (heroes_wr cs) idx of None \<Rightarrow> 50 | Some w \<Rightarrow> w)
           in case js_nth (win_rates cs) idx of
                None \<Rightarrow> Inr (wr + 0)
              | Some row \<Rightarrow>
                  (case heroScore_adv (build_heroIndex (heroes cs)) row opponentHeroes 0 of
                     Inl e \<Rightarrow> Inl e
                   | Inr adv \<Rightarrow> Inr (wr + adv))))"

text \<open>
  A match row of the delta-percentage simulator, with the hero fields split at \<open>|\<close> and
  trimmed and the odds parsed (\<open>None\<close> when \<open>parseFloat\<close> gives no finite number).
\<close>

record pct_match =
  hawk_match_id :: string
  team1 :: string
  team2 :: string
  team1_heroes :: "string list"
  team2_heroes :: "string list"
  match_winner :: string
  team1_odds :: "rat option"
  team2_odds :: "rat option"

fun team_score :: "cs_data \<Rightarrow> string list \<Rightarrow> string list \<Rightarrow> rat \<Rightarrow> exec_error + rat" where
  \<comment> \<open>\<open>team.reduce((sum, hero) => sum + heroScore(hero, opponents), 0)\<close>\<close>
  "team_score cs [] opponents summed = Inr summed"
| "team_score cs (hero # rest) opponents summed =
     (case heroScore cs hero opponents of
        Inl e \<Rightarrow> Inl e
      | Inr sc \<Rightarrow> team_score cs rest opponents (summed + sc))"

definition delta :: "cs_data \<Rightarrow> pct_match \<Rightarrow> exec_error + rat option" where
  "delta cs m =
     (if length (team1_heroes m) \<noteq> 5 \<or> length (team2_heroes m) \<noteq> 5 then Inr None
      else case team_score cs (team1_heroes m) (team2_heroes m) 0 of
             Inl e \<Rightarrow> Inl e
           | Inr s1 \<Rightarrow>
               (case team_score cs (team2_heroes m) (team1_heroes m) 0 of
                  Inl e \<Rightarrow> Inl e
                | Inr s2 \<Rightarrow> Inr (Some (toFixed 4 (s1 - s2)))))"

text \<open>
  The options object. \<open>execute\<close> reads \<open>maxBet\<close> (and the month bounds, applied before the
  loop); a caller may pass further keys, as \<open>run_delta_pct_custom_cli20.js\<close> passes
  \<open>minDelta: 20\<close>.
\<close>

record exec_opts =
  maxBet :: rat
  minDelta :: "rat option"

text \<open>
  A row of the per-bet ledger. The month, date, championship and team names, which
  \<open>execute\<close> copies from the match row, are left out; \<open>rec_won\<close> is the outcome column.
\<close>

record bet_record =
  rec_match_id :: string
  rec_delta :: rat
  rec_favored :: string
  rec_odds :: rat
  rec_stake :: rat
  rec_won :: bool
  rec_payout :: rat
  bank_before :: rat
  bank_after :: rat

record exec_state =
  ex_bank :: rat
  ex_peak :: rat
  ex_maxDrawdown :: rat
  ex_bets :: nat
  ex_wins :: nat
  ex_losses :: nat
  ex_skipped :: nat
  betRecords :: "bet_record list"

definition START_BANK :: rat where
  "START_BANK = 1000"

definition exec_init :: exec_state where
  "exec_init = \<lparr>ex_bank = START_BANK, ex_peak = START_BANK, ex_maxDrawdown = 0, ex_bets = 0,
                ex_wins = 0, ex_losses = 0, ex_skipped = 0, betRecords = []\<rparr>"

definition maxBetCap :: "exec_opts \<Rightarrow> rat option" where
  \<comment> \<open>\<open>opts.maxBet > 0 ? opts.maxBet : Infinity\<close>; \<open>None\<close> is no cap.\<close>
  "maxBetCap opts = (if maxBet opts > 0 then Some (maxBet opts) else None)"

text \<open>
  The stake of one bet: \<open>|delta| / 1000\<close> of the bank, at most 1, capped by \<open>maxBetCap\<close> and
  by the bank, then floored.
\<close>

definition execute_stake :: "exec_opts \<Rightarrow> rat \<Rightarrow> rat \<Rightarrow> rat" where
  "execute_stake opts bnk dl =
     (let pct = min (\<bar>dl\<bar> / 1000) 1;
          stake0 = bnk * pct;
          stake1 = (case maxBetCap opts of
                      None \<Rightarrow> stake0
                    | Some cap \<Rightarrow> if stake0 > cap then cap else stake0);
          stake2 = (if stake1 > bnk then bnk else stake1)
      in js_floor stake2)"

text \<open>
  The part of the loop body from \<open>const bankBefore = bank\<close> to the end. The flag of the
  result is \<open>True\<close> when the iteration ends in \<open>break\<close>.
\<close>

definition execute_bet ::
  "pct_match \<Rightarrow> rat \<Rightarrow> string \<Rightarrow> rat \<Rightarrow> rat \<Rightarrow> exec_state \<Rightarrow> exec_state \<times> bool" where
  "execute_bet m dl favored favoredOdds stake st =
     (let bankBefore = ex_bank st;
          won = (match_winner m = favored);
          payout = (if won then js_floor (stake * favoredOdds) else 0);
          bnk = ex_bank st - stake + payout;
          pk = (if bnk > ex_peak st then bnk else ex_peak st);
          drawdown = pk - bnk;
          betRecord = \<lparr>rec_match_id = hawk_match_id m, rec_delta = dl,
                       rec_favored = favored, rec_odds = favoredOdds,
                       rec_stake = stake, rec_won = won, rec_payout = payout,
                       bank_before = bankBefore, bank_after = bnk\<rparr>
      in (st\<lparr>ex_bank := bnk, ex_peak := pk,
               ex_maxDrawdown := (if drawdown > ex_maxDrawdown st then drawdown
                                  else ex_maxDrawdown st),
               ex_bets := ex_bets st + 1,
               ex_wins := (if won then ex_wins st + 1 else ex_wins st),
               ex_losses := (if won then ex_losses st else ex_losses st + 1),
               betRecords := betRecords st @ [betRecord]\<rparr>,
          bnk \<le> 0))"

text \<open>One iteration of the loop of \<open>execute\<close>.\<close>

definition execute_match ::
  "exec_opts \<Rightarrow> cs_data \<Rightarrow> pct_match \<Rightarrow> exec_state \<Rightarrow> exec_error + (exec_state \<times> bool)" where
  "execute_match opts cs m st =
     (case delta cs m of
        Inl e \<Rightarrow> Inl e
      | Inr None \<Rightarrow> Inr (st\<lparr>ex_skipped := ex_skipped st + 1\<rparr>, False)
      | Inr (Some dl) \<Rightarrow>
          if dl = 0 then Inr (st\<lparr>ex_skipped := ex_skipped st + 1\<rparr>, False)
          else
            (let favored = (if dl > 0 then team1 m else team2 m)
             in case (if dl > 0 then team1_odds m else team2_odds m) of
                  None \<Rightarrow> Inr (st\<lparr>ex_skipped := ex_skipped st + 1\<rparr>, False)
                | Some favoredOdds \<Rightarrow>
                    if favoredOdds \<le> 1 then Inr (st\<lparr>ex_skipped := ex_skipped st + 1\<rparr>, False)
                    else
                      (let stake = execute_stake opts (ex_bank st) dl
                       in if stake \<le> 0 then Inr (st, False)
                          else Inr (execute_bet m dl favored favoredOdds stake st))))"

fun execute_loop ::
  "exec_opts \<Rightarrow> cs_data \<Rightarrow> pct_match list \<Rightarrow> exec_state \<Rightarrow> exec_error + exec_state" where
  "execute_loop opts cs [] st = Inr st"
| "execute_loop opts cs (m # ms) st =
     (case execute_match opts cs m st of
        Inl e \<Rightarrow> Inl e
      | Inr (st', stop) \<Rightarrow> if stop then Inr st' else execute_loop opts cs ms st')"

text \<open>
  \<open>execute\<close> on the rows that are left after the month filter and the chronological sort.
  The summary is read off the final state.
\<close>

definition execute :: "exec_opts \<Rightarrow> cs_data \<Rightarrow> pct_match list \<Rightarrow> exec_error + exec_state" where
  "execute opts cs ms = execute_loop opts cs ms exec_init"

subsection \<open>\<open>delta_pct_strategy.js\<close>: \<open>run\<close>\<close>









section \<open>\<open>build_cs_matrix.js\<close>\<close>

record stratz_match =
  radiantRoles :: "nat list"
  direRoles :: "nat list"
  radiantWin :: bool

fun normalizeHeroIds_loop :: "nat list \<Rightarrow> (nat \<rightharpoonup> nat) \<Rightarrow> nat list \<Rightarrow> nat list option" where
  "normalizeHeroIds_loop [] heroMap ids = (if length ids = 5 then Some ids else None)"
| "normalizeHeroIds_loop (heroId # rest) heroMap ids =
     (case heroMap heroId of
        None \<Rightarrow> None
      | Some mapped \<Rightarrow> normalizeHeroIds_loop rest heroMap (ids @ [mapped]))"

definition normalizeHeroIds :: "nat list \<Rightarrow> (nat \<rightharpoonup> nat) \<Rightarrow> nat list option" where
  "normalizeHeroIds rawHeroes heroMap = normalizeHeroIds_loop rawHeroes heroMap []"

record hero_stat =
  hero_games :: nat
  hero_wins :: nat

record pair_cell =
  games :: nat
  pair_wins :: nat

record build_state =
  heroStats :: "hero_stat list"
  pairStats :: "pair_cell option list list"
  processed :: nat
  skipped :: nat

text \<open>
  Indexing \<open>heroStats\<close> or \<open>pairStats\<close> with a hero index that is not below \<open>heroCount\<close>
  gives \<open>undefined\<close>, and the property access on it throws a \<open>TypeError\<close>, which ends
  \<open>buildMatrix\<close>.
\<close>

datatype build_error = TypeError

definition build_init :: "nat \<Rightarrow> build_state" where
  "build_init heroCount =
     \<lparr>heroStats = replicate heroCount \<lparr>hero_games = 0, hero_wins = 0\<rparr>,
      pairStats = replicate heroCount (replicate heroCount None),
      processed = 0, skipped = 0\<rparr>"

definition updateHero :: "nat \<Rightarrow> bool \<Rightarrow> hero_stat list \<Rightarrow> build_error + hero_stat list" where
  "updateHero ident win hs =
     (if ident < length hs
      then Inr (hs[ident := \<lparr>hero_games = hero_games (hs ! ident) + 1,
                            hero_wins = (if win then hero_wins (hs ! ident) + 1
                                         else hero_wins (hs ! ident))\<rparr>])
      else Inl TypeError)"

fun updateHeroes :: "nat list \<Rightarrow> bool \<Rightarrow> hero_stat list \<Rightarrow> build_error + hero_stat list" where
  "updateHeroes [] win hs = Inr hs"
| "updateHeroes (ident # rest) win hs =
     (case updateHero ident win hs of Inl e \<Rightarrow> Inl e | Inr hs' \<Rightarrow> updateHeroes rest win hs')"

definition bump_cell :: "nat \<Rightarrow> nat \<Rightarrow> bool \<Rightarrow> pair_cell option list list \<Rightarrow> pair_cell option list list" where
  \<comment> \<open>\<open>cell = ps[a][b]\<close>, created at zero when \<open>null\<close>; one more game; one more win if \<open>win\<close>.\<close>
  "bump_cell a b win ps =
     (let cell = (case ps ! a ! b of None \<Rightarrow> \<lparr>games = 0, pair_wins = 0\<rparr> | Some cl \<Rightarrow> cl)
      in ps[a := (ps ! a)[b := Some \<lparr>games = games cell + 1,
                                    pair_wins = (if win then pair_wins cell + 1 else pair_wins cell)\<rparr>]])"

definition update_pair ::
  "nat \<Rightarrow> nat \<Rightarrow> bool \<Rightarrow> pair_cell option list list \<Rightarrow> build_error + pair_cell option list list" where
  \<comment> \<open>the body of the inner loop, for radiant hero \<open>r\<close> and dire hero \<open>d\<close>\<close>
  "update_pair r d rWin ps =
     (if r < length ps \<and> d < length ps
      then Inr (bump_cell d r (\<not> rWin) (bump_cell r d rWin ps))
      else Inl TypeError)"

fun update_dire ::
  "nat \<Rightarrow> nat list \<Rightarrow> bool \<Rightarrow> pair_cell option list list \<Rightarrow> build_error + pair_cell option list list" where
  "update_dire r [] rWin ps = Inr ps"
| "update_dire r (d # rest) rWin ps =
     (case update_pair r d rWin ps of Inl e \<Rightarrow> Inl e | Inr ps' \<Rightarrow> update_dire r rest rWin ps')"

fun update_radiant ::
  "nat list \<Rightarrow> nat list \<Rightarrow> bool \<Rightarrow> pair_cell option list list \<Rightarrow> build_error + pair_cell option list list" where
  "update_radiant [] dire rWin ps = Inr ps"
| "update_radiant (r # rest) dire rWin ps =
     (case update_dire r dire rWin ps of Inl e \<Rightarrow> Inl e | Inr ps' \<Rightarrow> update_radiant rest dire rWin ps')"

definition build_match :: "(nat \<rightharpoonup> nat) \<Rightarrow> stratz_match \<Rightarrow> build_state \<Rightarrow> build_error + build_state" where
  "build_match heroMap m bs =
     (case (normalizeHeroIds (radiantRoles m) heroMap, normalizeHeroIds (direRoles m) heroMap) of
        (Some radiant, Some dire) \<Rightarrow>
          (case updateHeroes radiant (radiantWin m) (heroStats bs) of
             Inl e \<Rightarrow> Inl e
           | Inr hs1 \<Rightarrow>
               (case updateHeroes dire (\<not> radiantWin m) hs1 of
                  Inl e \<Rightarrow> Inl e
                | Inr hs2 \<Rightarrow>
                    (case update_radiant radiant dire (radiantWin m) (pairStats bs) of
                       Inl e \<Rightarrow> Inl e
                     | Inr ps' \<Rightarrow>
                         Inr (bs\<lparr>heroStats := hs2, pairStats := ps', processed := processed bs + 1\<rparr>))))
      | _ \<Rightarrow> Inr (bs\<lparr>skipped := skipped bs + 1\<rparr>))"

fun build_loop :: "(nat \<rightharpoonup> nat) \<Rightarrow> stratz_match list \<Rightarrow> build_state \<Rightarrow> build_error + build_state" where
  "build_loop heroMap [] bs = Inr bs"
| "build_loop heroMap (m # ms) bs =
     (case build_match heroMap m bs of Inl e \<Rightarrow> Inl e | Inr bs' \<Rightarrow> build_loop heroMap ms bs')"

record matrix_out =
  out_heroesWr :: "rat list"
  out_winRates :: "cs_cell option list list"
  out_processed :: nat
  out_skipped :: nat

definition finish_cell :: "pair_cell option \<Rightarrow> cs_cell option" where
  "finish_cell cell =
     (case cell of
        None \<Rightarrow> None
      | Some cl \<Rightarrow>
          if games cl = 0 then None
          else (let wr = of_nat (pair_wins cl) / of_nat (games cl) * 100;
                    adv = wr - 50
                in Some \<lparr>cell_adv = Some (toFixed 4 adv), cell_wr = toFixed 4 wr,
                         cell_games = games cl\<rparr>))"

definition finish_hero :: "hero_stat \<Rightarrow> rat" where
  "finish_hero hs =
     (if hero_games hs = 0 then 50
      else toFixed 2 (of_nat (hero_wins hs) / of_nat (hero_games hs) * 100))"

definition buildMatrix :: "stratz_match list \<Rightarrow> nat \<Rightarrow> (nat \<rightharpoonup> nat) \<Rightarrow> build_error + matrix_out" where
  \<comment> \<open>\<open>raw\<close> is the list of the input object's values; \<open>heroCount\<close> is \<open>heroes.length\<close>.\<close>
  "buildMatrix raw heroCount heroMap =
     (case build_loop heroMap raw (build_init heroCount) of
        Inl e \<Rightarrow> Inl e
      | Inr bs \<Rightarrow>
          Inr \<lparr>out_heroesWr = map finish_hero (heroStats bs),
               out_winRates = map (map finish_cell) (pairStats bs),
               out_processed = processed bs, out_skipped = skipped bs\<rparr>)"





section \<open>Sample data\<close>

definition sample_match :: "rat \<Rightarrow> rat \<Rightarrow> bool \<Rightarrow> sim_match" where
  \<comment> \<open>team A is delta-favoured at the given odds against 2; it wins or loses\<close>
  "sample_match d odds won =
     \<lparr>deltaAbs = d, deltaFavTeam = ''A'', deltaDogTeam = ''B'', deltaFavIsTeam1 = True,
      favOdds = odds, dogOdds = 2, oddsRelation = classifyOddsRelation odds 2,
      winner = (if won then ''A'' else ''B''),
      team1Pos = 0, team1Neg = 0, team2Pos = 0, team2Neg = 0\<rparr>"

definition combo_flat100 :: combo where
  "combo_flat100 = (flat100 100)\<lparr>hero_filter := ''none'', odds_condition := ''any''\<rparr>"


definition combo_fibo1 :: combo where
  "combo_fibo1 = (fib1 1)\<lparr>hero_filter := ''none'', odds_condition := ''any''\<rparr>"

definition ten_losses :: "sim_match list" where
  "ten_losses = replicate 10 (sample_match 5 2 False)"

definition busted_state :: sim_state where
  "busted_state = \<lparr>bank = 0, bets = 10, wins = 0, peak = 1000, maxDrawdown = 1000, maxStake = 100,
                    fibStep = 0, maxStepReached = 0\<rparr>"

definition three_losses_state :: sim_state where
  "three_losses_state = \<lparr>bank = 996, bets = 3, wins = 0, peak = 1000, maxDrawdown = 4, maxStake = 2,
                          fibStep = 3, maxStepReached = 2\<rparr>"

definition win_after_losses_state :: sim_state where
  "win_after_losses_state = \<lparr>bank = 999, bets = 4, wins = 1, peak = 1000, maxDrawdown = 4,
                              maxStake = 3, fibStep = 1, maxStepReached = 3\<rparr>"

definition bust_corpus :: "sim_match list" where
  "bust_corpus = ten_losses @ replicate 11 (sample_match 10 2 True)"

definition two_matches :: "sim_match list" where
  "two_matches = [sample_match 5 2 True, sample_match 10 2 False]"

definition two_matches_stats5 :: sim_stats where
  "two_matches_stats5 =
     \<lparr>stats_strategy_group = ''Flat100'', stats_hero_filter = ''none'', stats_odds_condition = ''any'',
      delta_threshold = 5, stats_bets = 2, stats_wins = 1, win_pct = 50, final_bank = 1000,
      max_drawdown = 100, max_stake = 100, max_step = 0\<rparr>"

definition two_matches_stats10 :: sim_stats where
  "two_matches_stats10 =
     \<lparr>stats_strategy_group = ''Flat100'', stats_hero_filter = ''none'', stats_odds_condition = ''any'',
      delta_threshold = 10, stats_bets = 1, stats_wins = 0, win_pct = 0, final_bank = 900,
      max_drawdown = 100, max_stake = 100, max_step = 0\<rparr>"

definition sample_heroes :: "string list" where
  "sample_heroes = [''Axe'', ''Bane'', ''Lina'', ''Lion'', ''Luna'', ''Sven'', ''Tiny'', ''Viper'', ''Zeus'', ''Pudge'']"

definition sample_cs :: cs_data where
  "sample_cs = \<lparr>heroes = sample_heroes, heroes_wr = [52, 52, 52, 52, 52, 50, 50, 50, 50, 50],
                win_rates = replicate 10 (replicate 10 None)\<rparr>"

definition sample_pct_match :: pct_match where
  "sample_pct_match =
     \<lparr>hawk_match_id = ''1001'', team1 = ''A'', team2 = ''B'',
      team1_heroes = [''Axe'', ''Bane'', ''Lina'', ''Lion'', ''Luna''],
      team2_heroes = [''Sven'', ''Tiny'', ''Viper'', ''Zeus'', ''Pudge''],
      match_winner = ''A'', team1_odds = Some (3 / 2), team2_odds = Some (5 / 2)\<rparr>"

definition unresolved_pct_match :: pct_match where
  "unresolved_pct_match = sample_pct_match\<lparr>hawk_match_id := ''1000'',
      team2_heroes := [''Sven'', ''Tiny'', ''Viper'', ''Zeus'', ''Techies'']\<rparr>"

definition cli20_opts :: exec_opts where
  "cli20_opts = \<lparr>maxBet = 500000, minDelta = Some 20\<rparr>"

definition sample_bet_record :: bet_record where
  "sample_bet_record = \<lparr>rec_match_id = ''1001'', rec_delta = 10, rec_favored = ''A'',
      rec_odds = 3 / 2, rec_stake = 10, rec_won = True, rec_payout = 15,
      bank_before = 1000, bank_after = 1005\<rparr>"

definition sample_exec_state :: exec_state where
  "sample_exec_state = \<lparr>ex_bank = 1005, ex_peak = 1005, ex_maxDrawdown = 0, ex_bets = 1,
      ex_wins = 1, ex_losses = 0, ex_skipped = 0, betRecords = [sample_bet_record]\<rparr>"



definition sample_row :: csv_row where
  "sample_row = \<lparr>row_deltaRaw = Some 10,
      row_team1Heroes = [''Axe'', ''Bane'', ''Lina'', ''Lion'', ''Luna''],
      row_team2Heroes = [''Sven'', ''Tiny'', ''Viper'', ''Zeus'', ''Pudge''],
      row_deltaFavTeam = ''A'', row_team1Name = ''A'', row_team2Name = ''B'',
      row_team1Odds = Some (3 / 2), row_team2Odds = Some (5 / 2), row_winner = ''A''\<rparr>"

definition unresolved_row :: csv_row where
  "unresolved_row = sample_row\<lparr>row_team2Heroes := [''Sven'', ''Tiny'', ''Viper'', ''Zeus'', ''Techies'']\<rparr>"

definition sample_heroMap :: "nat \<rightharpoonup> nat" where
  "sample_heroMap = (\<lambda>k. if k < 10 then Some k else None)"

definition one_win :: stratz_match where
  "one_win = \<lparr>radiantRoles = [0, 1, 2, 3, 4], direRoles = [5, 6, 7, 8, 9], radiantWin = True\<rparr>"

definition one_win_rates :: "cs_cell option list list" where
  "one_win_rates =
     map (\<lambda>i. map (\<lambda>j. if i < 5 \<and> 5 \<le> j
                          then Some \<lparr>cell_adv = Some 50, cell_wr = 100, cell_games = 1\<rparr>
                        else if 5 \<le> i \<and> j < 5
                          then Some \<lparr>cell_adv = Some (- 50), cell_wr = 0, cell_games = 1\<rparr>
                        else None) [0 ..< 10]) [0 ..< (10::nat)]"

definition one_win_out :: matrix_out where
  "one_win_out = \<lparr>out_heroesWr = [100, 100, 100, 100, 100, 0, 0, 0, 0, 0],
                   out_winRates = one_win_rates, out_processed = 1, out_skipped = 0\<rparr>"

definition one_win_cs :: cs_data where
  "one_win_cs = \<lparr>heroes = sample_heroes, heroes_wr = out_heroesWr one_win_out,
                  win_rates = one_win_rates\<rparr>"



section \<open>Verification: the Fibonacci memo table\<close>

lemma cache_ok_init: "cache_ok fibCache_init"
  by (auto simp: cache_ok_def fibCache_init_def less_Suc_eq)

lemma fib_standard_rec: "2 \<le> n \<Longrightarrow> fib_standard n = fib_standard (n - 1) + fib_standard (n - 2)"
proof -
  assume "2 \<le> n"
  then obtain k where "n = Suc (Suc k)" by (metis add_2_eq_Suc le_Suc_ex)
  then show ?thesis by simp
qed

lemma cache_ok_push:
  assumes "cache_ok fibCache"
  shows "cache_ok (fibCache @ [fibCache ! (length fibCache - 1) + fibCache ! (length fibCache - 2)])"
proof -
  let ?n = "length fibCache"
  from assms have n2: "2 \<le> ?n" and vals: "\<And>i. i < ?n \<Longrightarrow> fibCache ! i = fib_standard i"
    by (auto simp: cache_ok_def)
  have "fibCache ! (?n - 1) + fibCache ! (?n - 2) = fib_standard ?n"
    using n2 vals[of "?n - 1"] vals[of "?n - 2"] fib_standard_rec[of ?n] by simp
  then show ?thesis
    using n2 vals by (auto simp: cache_ok_def nth_append less_Suc_eq)
qed

lemma fibCache_fill_ok:
  "cache_ok fibCache \<Longrightarrow> cache_ok (fibCache_fill step fibCache) \<and> step < int (length (fibCache_fill step fibCache))"
proof (induction step fibCache rule: fibCache_fill.induct)
  case (1 step fibCache)
  show ?case
  proof (cases "int (length fibCache) \<le> step")
    case True
    with 1 cache_ok_push[of fibCache] show ?thesis by (simp add: fibCache_fill.simps[of step fibCache])
  next
    case False
    with 1 show ?thesis by (simp add: fibCache_fill.simps[of step fibCache])
  qed
qed

lemma fib_standard_pos: "0 < fib_standard n"
  by (induction n rule: fib_standard.induct) auto

lemma getFibNumber_ok:
  assumes "cache_ok fibCache"
  shows "fst (getFibNumber step fibCache) = fib_standard (nat step)"
    and "cache_ok (snd (getFibNumber step fibCache))"
proof -
  show "fst (getFibNumber step fibCache) = fib_standard (nat step)"
  proof (cases "step \<le> 0")
    case True
    then show ?thesis by (simp add: getFibNumber_def)
  next
    case False
    from fibCache_fill_ok[OF assms, of step]
    have ok: "cache_ok (fibCache_fill step fibCache)"
      and len: "step < int (length (fibCache_fill step fibCache))" by simp_all
    from len False have "nat step < length (fibCache_fill step fibCache)" by linarith
    with ok have "fibCache_fill step fibCache ! nat step = fib_standard (nat step)"
      by (simp add: cache_ok_def)
    with False show ?thesis by (simp add: getFibNumber_def Let_def)
  qed
  show "cache_ok (snd (getFibNumber step fibCache))"
    using fibCache_fill_ok[OF assms, of step] assms by (simp add: getFibNumber_def Let_def)
qed

lemma fibCache_after_ok_gen:
  "cache_ok fibCache \<Longrightarrow> cache_ok (foldl (\<lambda>fibCache step. snd (getFibNumber step fibCache)) fibCache history)"
  by (induction history arbitrary: fibCache) (simp_all add: getFibNumber_ok)

lemma fibCache_after_ok: "cache_ok (fibCache_after history)"
  unfolding fibCache_after_def by (rule fibCache_after_ok_gen[OF cache_ok_init])

lemma simulate_match_unfold:
  "simulate_match c T m (st, fc) =
     (if \<not> passes_filters c T m then Inr (st, fc)
      else (case computeStake (bank st) c (fibStep st) fc of
              Inl e \<Rightarrow> Inl e
            | Inr (desiredStake, fc') \<Rightarrow>
                (if min desiredStake (min MAX_BET (bank st)) \<le> 0 then Inr (st, fc')
                 else Inr (place_bet c m (min desiredStake (min MAX_BET (bank st))) st, fc'))))"
  unfolding simulate_match_def passes_filters_def Let_def by auto

lemma computeStake_cache_indep:
  assumes "cache_ok c1" "cache_ok c2"
  shows "(\<exists>e. computeStake b c s c1 = Inl e \<and> computeStake b c s c2 = Inl e) \<or>
         (\<exists>v c1' c2'. computeStake b c s c1 = Inr (v, c1') \<and> computeStake b c s c2 = Inr (v, c2')
             \<and> cache_ok c1' \<and> cache_ok c2')"
  using assms getFibNumber_ok[OF assms(1), of s] getFibNumber_ok[OF assms(2), of s]
  by (auto simp: computeStake_def split: prod.splits)

lemma simulate_match_cache_indep:
  assumes "cache_ok c1" "cache_ok c2"
  shows "(\<exists>e. simulate_match c T m (st, c1) = Inl e \<and> simulate_match c T m (st, c2) = Inl e) \<or>
         (\<exists>st' c1' c2'. simulate_match c T m (st, c1) = Inr (st', c1') \<and> simulate_match c T m (st, c2) = Inr (st', c2')
             \<and> cache_ok c1' \<and> cache_ok c2')"
proof (cases "passes_filters c T m")
  case False
  with assms show ?thesis by (simp add: simulate_match_unfold)
next
  case True
  from computeStake_cache_indep[OF assms, of "bank st" c "fibStep st"]
  show ?thesis
  proof (elim disjE exE conjE)
    fix e assume "computeStake (bank st) c (fibStep st) c1 = Inl e"
      "computeStake (bank st) c (fibStep st) c2 = Inl e"
    with True show ?thesis by (simp add: simulate_match_unfold)
  next
    fix v c1' c2'
    assume "computeStake (bank st) c (fibStep st) c1 = Inr (v, c1')"
      "computeStake (bank st) c (fibStep st) c2 = Inr (v, c2')" "cache_ok c1'" "cache_ok c2'"
    with True show ?thesis by (simp add: simulate_match_unfold)
  qed
qed




section \<open>Verification: one strategy run\<close>

lemma place_bet_bank:
  "bank (place_bet c m stake st) = bank st - stake + (if winner m = deltaFavTeam m then stake * favOdds m else 0)"
  by (simp add: place_bet_def Let_def)

lemma place_bet_bets: "bets (place_bet c m stake st) = bets st + 1"
  by (simp add: place_bet_def Let_def)

lemma place_bet_fibStep:
  "fibStep (place_bet c m stake st) =
     (if stake_type c = ''fibonacci''
      then (if winner m = deltaFavTeam m then max 0 (fibStep st - 2) else fibStep st + 1)
      else fibStep st)"
  by (simp add: place_bet_def Let_def max_def)
lemma simulate_match_cases:
  assumes "simulate_match c T m (st, fc) = Inr (st', fc')"
  shows "st' = st \<or>
         (\<exists>stake. 0 < stake \<and> stake \<le> bank st \<and> stake \<le> MAX_BET \<and> 1 < favOdds m \<and> T \<le> deltaAbs m
             \<and> st' = place_bet c m stake st)"
proof (cases "passes_filters c T m")
  case False
  with assms show ?thesis by (simp add: simulate_match_unfold)
next
  case True
  then have f: "1 < favOdds m" "T \<le> deltaAbs m" by (auto simp: passes_filters_def)
  from assms True obtain desired where
    cs: "computeStake (bank st) c (fibStep st) fc = Inr (desired, fc')"
    and r: "(if min desired (min MAX_BET (bank st)) \<le> 0 then st
             else place_bet c m (min desired (min MAX_BET (bank st))) st) = st'"
    by (auto simp: simulate_match_unfold split: sum.splits prod.splits if_splits)
  show ?thesis
  proof (cases "min desired (min MAX_BET (bank st)) \<le> 0")
    case True
    with r show ?thesis by simp
  next
    case False
    with r f show ?thesis
      by (intro disjI2 exI[of _ "min desired (min MAX_BET (bank st))"]) auto
  qed
qed

lemma simulate_match_bank:
  assumes "simulate_match c T m (st, fc) = Inr (st', fc')" "0 \<le> bank st"
  shows "0 \<le> bank st'"
proof -
  from simulate_match_cases[OF assms(1)] show ?thesis
  proof (elim disjE exE conjE)
    assume "st' = st" with assms(2) show ?thesis by simp
  next
    fix stake assume h: "0 < stake" "stake \<le> bank st" "1 < favOdds m" "st' = place_bet c m stake st"
    then have "0 \<le> stake * favOdds m" by simp
    with h show ?thesis by (simp add: place_bet_bank)
  qed
qed

lemma simulate_match_fibStep:
  assumes "simulate_match c T m (st, fc) = Inr (st', fc')" "0 \<le> fibStep st"
  shows "0 \<le> fibStep st'"
  using simulate_match_cases[OF assms(1)] assms(2)
  by (auto simp: place_bet_fibStep)

lemma simulate_loop_halted:
  "bank st \<le> 0 \<Longrightarrow> simulate_loop c T ms (st\<lparr>bank := 0\<rparr>, fc) = Inr (st\<lparr>bank := 0\<rparr>, fc)"
  by (cases ms) simp_all

lemma simulate_loop_append:
  "simulate_loop c T (xs @ ys) sc =
     (case simulate_loop c T xs sc of Inl e \<Rightarrow> Inl e | Inr sc' \<Rightarrow> simulate_loop c T ys sc')"
proof (induction xs arbitrary: sc)
  case Nil
  then show ?case by simp
next
  case (Cons m xs)
  obtain st fc where sc: "sc = (st, fc)" by (cases sc)
  show ?case
  proof (cases "bank st \<le> 0")
    case True
    then show ?thesis using simulate_loop_halted[OF True, of c T ys fc] by (simp add: sc)
  next
    case False
    then show ?thesis using Cons.IH by (simp add: sc split: sum.splits)
  qed
qed

lemma simulate_loop_bank:
  assumes "simulate_loop c T ms (st, fc) = Inr (st', fc')" "0 \<le> bank st"
  shows "0 \<le> bank st'"
  using assms
proof (induction ms arbitrary: st fc)
  case Nil
  then show ?case by simp
next
  case (Cons m ms)
  show ?case
  proof (cases "bank st \<le> 0")
    case True
    with Cons.prems show ?thesis by auto
  next
    case False
    with Cons.prems obtain st1 fc1 where
      s: "simulate_match c T m (st, fc) = Inr (st1, fc1)" and
      r: "simulate_loop c T ms (st1, fc1) = Inr (st', fc')"
      by (auto split: sum.splits)
    from simulate_match_bank[OF s Cons.prems(2)] have "0 \<le> bank st1" .
    from Cons.IH[OF r this] show ?thesis .
  qed
qed

lemma simulate_loop_fibStep:
  assumes "simulate_loop c T ms (st, fc) = Inr (st', fc')" "0 \<le> fibStep st"
  shows "0 \<le> fibStep st'"
  using assms
proof (induction ms arbitrary: st fc)
  case Nil
  then show ?case by simp
next
  case (Cons m ms)
  show ?case
  proof (cases "bank st \<le> 0")
    case True
    with Cons.prems show ?thesis by auto
  next
    case False
    with Cons.prems obtain st1 fc1 where
      s: "simulate_match c T m (st, fc) = Inr (st1, fc1)" and
      r: "simulate_loop c T ms (st1, fc1) = Inr (st', fc')"
      by (auto split: sum.splits)
    from simulate_match_fibStep[OF s Cons.prems(2)] have "0 \<le> fibStep st1" .
    from Cons.IH[OF r this] show ?thesis .
  qed
qed

lemma js_round_nonneg: "0 \<le> x \<Longrightarrow> 0 \<le> js_round x"
  by (simp add: js_round_def)

text \<open>
  Claim C1. At every point of a run of \<open>simulateStrategy\<close>, that is after any prefix of the
  corpus, the bankroll is not negative, and neither is the final bank of the summary. Once
  the bankroll is at or below 0 it is exactly 0 and the matches that follow change nothing:
  the run over the longer corpus ends in the same state.
\<close>

theorem bankroll_never_negative:
  assumes "simulate_loop c T pre (sim_init, fc) = Inr (st, fc')"
  shows "0 \<le> bank st \<and> 0 \<le> final_bank (summarize c T st) \<and>
         (bank st \<le> 0 \<longrightarrow> bank st = 0 \<and> simulate_loop c T (pre @ post) (sim_init, fc) = Inr (st, fc'))"
proof -
  have nn: "0 \<le> bank st"
    using simulate_loop_bank[OF assms] by (simp add: sim_init_def INITIAL_BANK_def)
  have fin: "0 \<le> final_bank (summarize c T st)"
    using js_round_nonneg[OF nn] by (simp add: summarize_def)
  have "simulate_loop c T (pre @ post) (sim_init, fc) = Inr (st, fc')" if "bank st \<le> 0"
  proof -
    from that nn have z: "st\<lparr>bank := 0\<rparr> = st" by simp
    from simulate_loop_halted[OF that, of c T post fc'] z
    have "simulate_loop c T post (st, fc') = Inr (st, fc')" by simp
    then show ?thesis using assms by (simp add: simulate_loop_append)
  qed
  with nn fin show ?thesis by auto
qed

theorem bankroll_never_negative_witness:
  "simulate_loop combo_flat100 5 ten_losses (sim_init, fibCache_init) = Inr (busted_state, fibCache_init)
   \<and> bank busted_state \<le> 0
   \<and> 0 \<le> final_bank (summarize combo_flat100 5 busted_state)
   \<and> simulate_loop combo_flat100 5 (ten_losses @ [sample_match 5 2 True]) (sim_init, fibCache_init)
       = Inr (busted_state, fibCache_init)"
proof -
  have h: "simulate_loop combo_flat100 5 ten_losses (sim_init, fibCache_init)
             = Inr (busted_state, fibCache_init)"
    by code_simp
  have b: "bank busted_state \<le> 0" by (simp add: busted_state_def)
  note c = bankroll_never_negative[OF h, of "[sample_match 5 2 True]"]
  from c have f: "0 \<le> final_bank (summarize combo_flat100 5 busted_state)" by blast
  from c b have "simulate_loop combo_flat100 5 (ten_losses @ [sample_match 5 2 True])
                   (sim_init, fibCache_init) = Inr (busted_state, fibCache_init)"
    by blast
  with h b f show ?thesis by blast
qed

text \<open>
  Claim C5. In a Fibonacci run, an iteration that places a bet leaves the step counter at
  \<open>max 0 (stepBefore - 2)\<close> after a win and at \<open>stepBefore + 1\<close> after a loss; an iteration
  that places no bet leaves it as it was; and the counter is never negative, before or
  after any iteration of the run.
\<close>

theorem fib_step_rule:
  assumes "stake_type c = ''fibonacci''"
    and "simulate_loop c T pre (sim_init, fc) = Inr (st, fc')"
    and "simulate_match c T m (st, fc') = Inr (st', fc'')"
  shows "0 \<le> fibStep st \<and> 0 \<le> fibStep st' \<and>
         (if bets st' = bets st then fibStep st' = fibStep st
          else bets st' = bets st + 1 \<and>
               fibStep st' = (if winner m = deltaFavTeam m then max 0 (fibStep st - 2) else fibStep st + 1))"
proof -
  have s0: "0 \<le> fibStep st"
    using simulate_loop_fibStep[OF assms(2)] by (simp add: sim_init_def)
  have s1: "0 \<le> fibStep st'"
    using simulate_match_fibStep[OF assms(3) s0] .
  from simulate_match_cases[OF assms(3)]
  have "if bets st' = bets st then fibStep st' = fibStep st
          else bets st' = bets st + 1 \<and>
               fibStep st' = (if winner m = deltaFavTeam m then max 0 (fibStep st - 2) else fibStep st + 1)"
    using assms(1) by (auto simp: place_bet_fibStep place_bet_bets)
  with s0 s1 show ?thesis by simp
qed

theorem fib_step_rule_witness:
  "stake_type combo_fibo1 = ''fibonacci'' \<and>
   simulate_loop combo_fibo1 0 (replicate 3 (sample_match 10 2 False)) (sim_init, fibCache_init)
     = Inr (three_losses_state, [1, 1, 2]) \<and>
   simulate_match combo_fibo1 0 (sample_match 10 2 True) (three_losses_state, [1, 1, 2])
     = Inr (win_after_losses_state, [1, 1, 2, 3]) \<and>
   fibStep three_losses_state = 3 \<and> fibStep win_after_losses_state = 1 \<and>
   fibStep win_after_losses_state = max 0 (fibStep three_losses_state - 2)"
proof -
  have t: "stake_type combo_fibo1 = ''fibonacci''" by code_simp
  have h: "simulate_loop combo_fibo1 0 (replicate 3 (sample_match 10 2 False)) (sim_init, fibCache_init)
             = Inr (three_losses_state, [1, 1, 2])"
    by code_simp
  have m: "simulate_match combo_fibo1 0 (sample_match 10 2 True) (three_losses_state, [1, 1, 2])
             = Inr (win_after_losses_state, [1, 1, 2, 3])"
    by code_simp
  have w: "winner (sample_match 10 2 True) = deltaFavTeam (sample_match 10 2 True)" by code_simp
  have nb: "bets win_after_losses_state \<noteq> bets three_losses_state"
    by (simp add: win_after_losses_state_def three_losses_state_def)
  have v: "fibStep three_losses_state = 3" "fibStep win_after_losses_state = 1"
    by (simp_all add: win_after_losses_state_def three_losses_state_def)
  from fib_step_rule[OF t h m] nb w
  have "fibStep win_after_losses_state = max 0 (fibStep three_losses_state - 2)"
    by simp
  with t h m v show ?thesis by blast
qed

section \<open>Verification: bets and thresholds\<close>

lemma passes_filters_mono: "T1 \<le> T2 \<Longrightarrow> passes_filters c T2 m \<Longrightarrow> passes_filters c T1 m"
  by (auto simp: passes_filters_def)

lemma count_passes_mono:
  "T1 \<le> T2 \<Longrightarrow> length (filter (passes_filters c T2) ms) \<le> length (filter (passes_filters c T1) ms)"
  by (induction ms) (auto dest: passes_filters_mono)

lemma getFibNumber_value:
  "cache_ok fc \<Longrightarrow> getFibNumber step fc = (fib_standard (nat step), snd (getFibNumber step fc))"
  using getFibNumber_ok(1)[of fc step] by (cases "getFibNumber step fc") simp

lemma computeStake_pos:
  assumes "stake_pos c" "cache_ok fc" "0 < b"
  shows "\<exists>v fc'. computeStake b c step fc = Inr (v, fc') \<and> 0 < v \<and> cache_ok fc'"
proof -
  have f: "0 < fib_standard (nat step)" by (rule fib_standard_pos)
  obtain fv fc1 where g: "getFibNumber step fc = (fv, fc1)" by (cases "getFibNumber step fc")
  with getFibNumber_ok[OF assms(2), of step] f have fv: "0 < fv" "cache_ok fc1" by simp_all
  from assms(1) consider (flat) "stake_type c = ''flat''" "0 < flat_amount c"
    | (pct) "stake_type c = ''pct_bankroll''" "0 < percent c"
    | (fib) "stake_type c = ''fibonacci''" "0 < unit c"
    by (auto simp: stake_pos_def)
  then show ?thesis
  proof cases
    case flat
    with assms show ?thesis by (simp add: computeStake_def)
  next
    case pct
    with assms show ?thesis by (simp add: computeStake_def)
  next
    case fib
    with assms g fv show ?thesis by (simp add: computeStake_def)
  qed
qed

lemma computeStake_nonpos:
  assumes "\<not> stake_pos c" "cache_ok fc" "computeStake b c step fc = Inr (v, fc')"
  shows "v \<le> 0 \<and> cache_ok fc'"
proof (cases "b \<le> 0")
  case True
  with assms show ?thesis by (simp add: computeStake_def)
next
  case False
  have f: "0 < fib_standard (nat step)" by (rule fib_standard_pos)
  obtain fv fc1 where g: "getFibNumber step fc = (fv, fc1)" by (cases "getFibNumber step fc")
  with getFibNumber_ok[OF assms(2), of step] f have fv: "0 < fv" "cache_ok fc1" by simp_all
  consider (flat) "stake_type c = ''flat''"
    | (pct) "stake_type c \<noteq> ''flat''" "stake_type c = ''pct_bankroll''"
    | (fib) "stake_type c \<noteq> ''flat''" "stake_type c \<noteq> ''pct_bankroll''" "stake_type c = ''fibonacci''"
    | (other) "stake_type c \<noteq> ''flat''" "stake_type c \<noteq> ''pct_bankroll''" "stake_type c \<noteq> ''fibonacci''"
    by blast
  then show ?thesis
  proof cases
    case flat
    with assms False show ?thesis by (auto simp: computeStake_def stake_pos_def)
  next
    case pct
    with assms(1) have "percent c \<le> 0" by (auto simp: stake_pos_def)
    with False have "b * percent c \<le> 0" by (simp add: mult_nonneg_nonpos)
    with pct assms False show ?thesis by (auto simp: computeStake_def)
  next
    case fib
    with assms(1) have "unit c \<le> 0" by (auto simp: stake_pos_def)
    with fv have "of_int fv * unit c \<le> 0" by (simp add: mult_nonneg_nonpos)
    with fib assms False g fv show ?thesis by (auto simp: computeStake_def)
  next
    case other
    with assms False show ?thesis by (simp add: computeStake_def)
  qed
qed

lemma simulate_match_cache_ok:
  assumes "cache_ok fc" "simulate_match c T m (st, fc) = Inr (st', fc')"
  shows "cache_ok fc'"
  using simulate_match_cache_indep[OF assms(1) assms(1), of c T m st] assms(2) by auto

lemma simulate_match_no_stake:
  assumes "\<not> stake_pos c" "cache_ok fc" "simulate_match c T m (st, fc) = Inr (st', fc')"
  shows "st' = st"
proof (cases "passes_filters c T m")
  case False
  with assms show ?thesis by (simp add: simulate_match_unfold)
next
  case True
  from assms(3) True obtain v where cs: "computeStake (bank st) c (fibStep st) fc = Inr (v, fc')"
    by (auto simp: simulate_match_unfold split: sum.splits prod.splits if_splits)
  from computeStake_nonpos[OF assms(1,2) cs] have "v \<le> 0" by simp
  then have "min v (min MAX_BET (bank st)) \<le> 0" by simp
  with assms(3) True cs show ?thesis by (simp add: simulate_match_unfold)
qed

lemma simulate_match_bets_exact:
  assumes "stake_pos c" "cache_ok fc" "0 < bank st" "simulate_match c T m (st, fc) = Inr (st', fc')"
  shows "bets st' = bets st + (if passes_filters c T m then 1 else 0)"
proof (cases "passes_filters c T m")
  case False
  with assms show ?thesis by (simp add: simulate_match_unfold)
next
  case True
  from computeStake_pos[OF assms(1,2,3), of "fibStep st"] obtain v fc1 where
    cs: "computeStake (bank st) c (fibStep st) fc = Inr (v, fc1)" and v: "0 < v" by blast
  from v assms(3) have "\<not> min v (min MAX_BET (bank st)) \<le> 0" by (simp add: MAX_BET_def)
  with assms(4) True cs show ?thesis by (auto simp: simulate_match_unfold place_bet_bets)
qed

lemma simulate_match_bets_le:
  assumes "simulate_match c T m (st, fc) = Inr (st', fc')"
  shows "bets st' \<le> bets st + (if passes_filters c T m then 1 else 0)"
proof (cases "passes_filters c T m")
  case False
  with assms show ?thesis by (simp add: simulate_match_unfold)
next
  case True
  with assms show ?thesis
    by (auto simp: simulate_match_unfold place_bet_bets split: sum.splits prod.splits if_splits)
qed

lemma simulate_loop_bets_le:
  "simulate_loop c T ms (st, fc) = Inr (st', fc') \<Longrightarrow>
     bets st' \<le> bets st + length (filter (passes_filters c T) ms)"
proof (induction ms arbitrary: st fc)
  case Nil
  then show ?case by simp
next
  case (Cons m ms)
  show ?case
  proof (cases "bank st \<le> 0")
    case True
    with Cons.prems show ?thesis by auto
  next
    case False
    with Cons.prems obtain st1 fc1 where
      s: "simulate_match c T m (st, fc) = Inr (st1, fc1)" and
      r: "simulate_loop c T ms (st1, fc1) = Inr (st', fc')"
      by (auto split: sum.splits)
    from simulate_match_bets_le[OF s] Cons.IH[OF r] show ?thesis by auto
  qed
qed

lemma simulate_loop_bets_exact:
  "stake_pos c \<Longrightarrow> cache_ok fc \<Longrightarrow> simulate_loop c T ms (st, fc) = Inr (st', fc') \<Longrightarrow> 0 < bank st' \<Longrightarrow>
     bets st' = bets st + length (filter (passes_filters c T) ms)"
proof (induction ms arbitrary: st fc)
  case Nil
  then show ?case by simp
next
  case (Cons m ms)
  show ?case
  proof (cases "bank st \<le> 0")
    case True
    with Cons.prems show ?thesis by auto
  next
    case False
    with Cons.prems obtain st1 fc1 where
      s: "simulate_match c T m (st, fc) = Inr (st1, fc1)" and
      r: "simulate_loop c T ms (st1, fc1) = Inr (st', fc')"
      by (auto split: sum.splits)
    from False have b: "0 < bank st" by simp
    from simulate_match_bets_exact[OF Cons.prems(1,2) b s]
      Cons.IH[OF Cons.prems(1) simulate_match_cache_ok[OF Cons.prems(2) s] r Cons.prems(4)]
    show ?thesis by auto
  qed
qed

lemma simulate_loop_no_stake:
  "\<not> stake_pos c \<Longrightarrow> cache_ok fc \<Longrightarrow> simulate_loop c T ms (st, fc) = Inr (st', fc') \<Longrightarrow>
     bets st' = bets st"
proof (induction ms arbitrary: st fc)
  case Nil
  then show ?case by simp
next
  case (Cons m ms)
  show ?case
  proof (cases "bank st \<le> 0")
    case True
    with Cons.prems show ?thesis by auto
  next
    case False
    with Cons.prems obtain st1 fc1 where
      s: "simulate_match c T m (st, fc) = Inr (st1, fc1)" and
      r: "simulate_loop c T ms (st1, fc1) = Inr (st', fc')"
      by (auto split: sum.splits)
    from simulate_match_no_stake[OF Cons.prems(1,2) s] have e: "st1 = st" .
    from Cons.IH[OF Cons.prems(1) simulate_match_cache_ok[OF Cons.prems(2) s] r] e
    show ?thesis by simp
  qed
qed

lemma js_round_pos: "0 < js_round x \<Longrightarrow> 0 < x"
  unfolding js_round_def by linarith

text \<open>
  Claim C2, as stated, fails: a run at the lower threshold can go bust on matches that the
  higher threshold filters out, and then places fewer bets than the run at the higher
  threshold. Ten lost flat bets of 100 at deltas of 5 empty the bank at threshold 5 before
  the eleven matches at deltas of 10 are reached; at threshold 10 all eleven are bet.
\<close>

theorem threshold_monotonicity_counterexample:
  "(5::rat) < 10 \<and>
   map_sum id (\<lambda>r. stats_bets (fst r)) (simulateStrategy bust_corpus combo_flat100 5 fibCache_init) = Inr 10 \<and>
   map_sum id (\<lambda>r. stats_bets (fst r)) (simulateStrategy bust_corpus combo_flat100 10 fibCache_init) = Inr 11 \<and>
   \<not> (11::nat) \<le> 10"
proof -
  have a: "map_sum id (\<lambda>r. stats_bets (fst r)) (simulateStrategy bust_corpus combo_flat100 5 fibCache_init) = Inr 10"
    by code_simp
  have b: "map_sum id (\<lambda>r. stats_bets (fst r)) (simulateStrategy bust_corpus combo_flat100 10 fibCache_init) = Inr 11"
    by code_simp
  from a b show ?thesis by simp
qed

text \<open>
  Claim C2, amended. For thresholds \<open>T1 < T2\<close> and one configuration, if the run at \<open>T1\<close>
  ends with a positive final bank (it did not go bust), the run at \<open>T2\<close> places at most as
  many bets as the run at \<open>T1\<close>.
\<close>

theorem threshold_monotone_without_bust:
  assumes "T1 < T2"
    and "simulateStrategy ms c T1 (fibCache_after history) = Inr (s1, fc1)"
    and "simulateStrategy ms c T2 (fibCache_after history) = Inr (s2, fc2)"
    and "0 < final_bank s1"
  shows "stats_bets s2 \<le> stats_bets s1"
proof -
  have ok: "cache_ok (fibCache_after history)" by (rule fibCache_after_ok)
  from assms(2) obtain st1 where
    l1: "simulate_loop c T1 ms (sim_init, fibCache_after history) = Inr (st1, fc1)"
    and s1: "s1 = summarize c T1 st1"
    by (auto simp: simulateStrategy_def split: sum.splits prod.splits)
  from assms(3) obtain st2 where
    l2: "simulate_loop c T2 ms (sim_init, fibCache_after history) = Inr (st2, fc2)"
    and s2: "s2 = summarize c T2 st2"
    by (auto simp: simulateStrategy_def split: sum.splits prod.splits)
  have b1: "stats_bets s1 = bets st1" and b2: "stats_bets s2 = bets st2"
    using s1 s2 by (simp_all add: summarize_def)
  from assms(4) s1 have pos: "0 < bank st1"
    using js_round_pos[of "bank st1"] by (simp add: summarize_def)
  show ?thesis
  proof (cases "stake_pos c")
    case True
    from simulate_loop_bets_exact[OF True ok l1 pos]
    have "bets st1 = bets sim_init + length (filter (passes_filters c T1) ms)" .
    moreover from simulate_loop_bets_le[OF l2]
    have "bets st2 \<le> bets sim_init + length (filter (passes_filters c T2) ms)" .
    moreover from assms(1) have "T1 \<le> T2" by simp
    from count_passes_mono[OF this, of c ms]
    have "length (filter (passes_filters c T2) ms) \<le> length (filter (passes_filters c T1) ms)" .
    ultimately show ?thesis using b1 b2 by simp
  next
    case False
    from simulate_loop_no_stake[OF False ok l1] simulate_loop_no_stake[OF False ok l2] b1 b2
    show ?thesis by simp
  qed
qed

theorem threshold_monotone_without_bust_witness:
  "(5::rat) < 10 \<and>
   simulateStrategy two_matches combo_flat100 5 (fibCache_after []) = Inr (two_matches_stats5, fibCache_init) \<and>
   simulateStrategy two_matches combo_flat100 10 (fibCache_after []) = Inr (two_matches_stats10, fibCache_init) \<and>
   0 < final_bank two_matches_stats5 \<and>
   stats_bets two_matches_stats10 \<le> stats_bets two_matches_stats5"
proof -
  have t: "(5::rat) < 10" by simp
  have a: "simulateStrategy two_matches combo_flat100 5 (fibCache_after [])
             = Inr (two_matches_stats5, fibCache_init)"
    by code_simp
  have b: "simulateStrategy two_matches combo_flat100 10 (fibCache_after [])
             = Inr (two_matches_stats10, fibCache_init)"
    by code_simp
  have p: "0 < final_bank two_matches_stats5" by (simp add: two_matches_stats5_def)
  have "stats_bets two_matches_stats10 \<le> stats_bets two_matches_stats5"
    by (rule threshold_monotone_without_bust[OF t a b p])
  with t a b p show ?thesis by blast
qed

section \<open>Verification: the delta-percentage simulator\<close>

lemma sample_delta: "delta sample_cs sample_pct_match = Inr (Some 10)"
  by code_simp

lemma sample_execute: "execute cli20_opts sample_cs [sample_pct_match] = Inr sample_exec_state"
  by code_simp















lemma loadMatches_row_unresolved:
  assumes "row_deltaRaw row = Some d"
    and "length (row_team1Heroes row) = 5" "length (row_team2Heroes row) = 5"
    and "heroNamesToIds (row_team1Heroes row) heroIndex (missingHeroes ls) = (ids1, missing1)"
    and "heroNamesToIds (row_team2Heroes row) heroIndex missing1 = (ids2, missing2)"
    and "ids1 = None \<or> ids2 = None"
  shows "loadMatches_row winRates heroIndex row ls
           = ls\<lparr>missingHeroes := missing2, skip_heroLookup := skip_heroLookup ls + 1\<rparr>"
  using assms by (cases ids1) (simp_all add: loadMatches_row_def Let_def)

text \<open>
  Claim C7, evaluated on the code. In \<open>execute\<close> a hero name that is not in the hero list
  makes \<open>heroScore\<close> throw, nothing catches the exception, and the whole run ends with the
  error: the match after the offending one is never processed and no summary is produced.
  \<open>loadMatches\<close> of the strategy sweep, given the same two matches, counts the first under
  \<open>heroLookup\<close> and loads the second.
\<close>

theorem execute_aborts_on_unresolved_hero:
  "execute cli20_opts sample_cs [unresolved_pct_match, sample_pct_match] = Inl (HeroNotFound ''Techies'') \<and>
   execute cli20_opts sample_cs [sample_pct_match] = Inr sample_exec_state \<and>
   skip_heroLookup (loadMatches [Row unresolved_row, Row sample_row] sample_cs) = 1 \<and>
   length (matches (loadMatches [Row unresolved_row, Row sample_row] sample_cs)) = 1"
proof -
  have a: "execute cli20_opts sample_cs [unresolved_pct_match, sample_pct_match] = Inl (HeroNotFound ''Techies'')"
    by code_simp
  have c: "skip_heroLookup (loadMatches [Row unresolved_row, Row sample_row] sample_cs) = 1" by code_simp
  have d: "length (matches (loadMatches [Row unresolved_row, Row sample_row] sample_cs)) = 1" by code_simp
  from a sample_execute c d show ?thesis by blast
qed

lemma simulate_match_below_threshold:
  "deltaAbs m < deltaThreshold \<Longrightarrow> simulate_match c deltaThreshold m sc = Inr sc"
  by (cases sc) (simp add: simulate_match_unfold passes_filters_def)

text \<open>
  Claim C8, evaluated on the code. \<open>simulateStrategy\<close> leaves the state as it is at a
  match whose delta is below the threshold (the lemma above). \<open>execute\<close> does not:
  \<open>run_delta_pct_custom_cli20.js\<close> calls it with \<open>minDelta: 20\<close>, and \<open>execute\<close> never
  reads that option. A match with a delta of 10 is bet on: the stake of 10 is debited, the
  bet is counted and the bank changes.
\<close>

theorem execute_ignores_minDelta:
  "minDelta cli20_opts = Some 20 \<and>
   execute cli20_opts sample_cs [sample_pct_match] = Inr sample_exec_state \<and>
   map rec_delta (betRecords sample_exec_state) = [10] \<and>
   map rec_stake (betRecords sample_exec_state) = [10] \<and>
   ex_bets sample_exec_state = 1 \<and> ex_bank sample_exec_state = 1005"
proof -
  have a: "minDelta cli20_opts = Some 20" by code_simp
  have d: "map rec_delta (betRecords sample_exec_state) = [10] \<and>
           map rec_stake (betRecords sample_exec_state) = [10] \<and>
           ex_bets sample_exec_state = 1 \<and> ex_bank sample_exec_state = 1005"
    by (simp add: sample_exec_state_def sample_bet_record_def)
  from a sample_execute d show ?thesis by blast
qed

section \<open>Verification: the strategy generator\<close>

lemma computeStake_total:
  "known_stake_type c \<Longrightarrow> \<exists>v fc'. computeStake b c step fc = Inr (v, fc')"
  by (auto simp: known_stake_type_def computeStake_def split: prod.splits)

lemma simulate_match_total:
  assumes "known_stake_type c"
  shows "\<exists>st' fc'. simulate_match c T m (st, fc) = Inr (st', fc')"
proof -
  from computeStake_total[OF assms, of "bank st" "fibStep st" fc] obtain v fc1 where
    "computeStake (bank st) c (fibStep st) fc = Inr (v, fc1)" by blast
  then show ?thesis by (simp add: simulate_match_unfold)
qed

lemma simulate_loop_total:
  assumes "known_stake_type c"
  shows "\<exists>st' fc'. simulate_loop c T ms (st, fc) = Inr (st', fc')"
proof (induction ms arbitrary: st fc)
  case Nil
  then show ?case by simp
next
  case (Cons m ms)
  from simulate_match_total[OF assms, of T m st fc] obtain st1 fc1 where
    "simulate_match c T m (st, fc) = Inr (st1, fc1)" by blast
  with Cons.IH[of st1 fc1] show ?case by simp
qed

lemma simulateStrategy_total:
  assumes "known_stake_type c"
  shows "\<exists>stats fc'. simulateStrategy ms c T fc = Inr (stats, fc') \<and> row_key stats = pair_key (c, T)"
proof -
  from simulate_loop_total[OF assms, of T ms sim_init fc] obtain st' fc' where
    "simulate_loop c T ms (sim_init, fc) = Inr (st', fc')" by blast
  then show ?thesis
    by (simp add: simulateStrategy_def row_key_def pair_key_def summarize_def)
qed

lemma run_sweep_total:
  "list_all (\<lambda>p. known_stake_type (fst p)) pairs \<Longrightarrow>
     \<exists>rows fc'. run_sweep ms pairs fc = Inr (rows, fc') \<and> map row_key rows = map pair_key pairs"
proof (induction pairs arbitrary: fc)
  case Nil
  then show ?case by simp
next
  case (Cons p pairs)
  obtain c T where p: "p = (c, T)" by (cases p)
  with Cons.prems have k: "known_stake_type c" and r: "list_all (\<lambda>p. known_stake_type (fst p)) pairs"
    by simp_all
  from simulateStrategy_total[OF k, of ms T fc] obtain stats fc1 where
    s: "simulateStrategy ms c T fc = Inr (stats, fc1)" "row_key stats = pair_key (c, T)" by blast
  from Cons.IH[OF r, of fc1] obtain rows fc2 where
    "run_sweep ms pairs fc1 = Inr (rows, fc2)" "map row_key rows = map pair_key pairs" by blast
  with s p show ?case by simp
qed

lemma sweep_pairs_known: "list_all (\<lambda>p. known_stake_type (fst p)) sweep_pairs"
  by code_simp

text \<open>
  Claim C6, as stated, fails: \<open>buildCombos\<close> does not produce the full cross product of
  five staking policies, three hero filters and three odds conditions, and its order is
  not policy first. It produces 36 configurations, not 45; the 5%-of-bankroll policy comes
  only without a hero filter, so that for instance (Pct5, 4+4-, any) is missing; and the
  fourth configuration is (Pct5, none, any), where a policy-first order has
  (Flat100, 4+4-, any).
\<close>

theorem buildCombos_not_cross_product:
  "length buildCombos = 36 \<and> length spec_cross_product = 45 \<and>
   (''Pct5'', ''4+4-'', ''any'') \<in> set spec_cross_product \<and>
   (''Pct5'', ''4+4-'', ''any'') \<notin> set (map combo_key buildCombos) \<and>
   map combo_key buildCombos ! 3 = (''Pct5'', ''none'', ''any'') \<and>
   spec_cross_product ! 3 = (''Flat100'', ''4+4-'', ''any'')"
proof -
  have a: "length buildCombos = 36" by code_simp
  have b: "length spec_cross_product = 45" by code_simp
  have c: "(''Pct5'', ''4+4-'', ''any'') \<in> set spec_cross_product" by code_simp
  have d: "(''Pct5'', ''4+4-'', ''any'') \<notin> set (map combo_key buildCombos)" by code_simp
  have e: "map combo_key buildCombos ! 3 = (''Pct5'', ''none'', ''any'')" by code_simp
  have f: "spec_cross_product ! 3 = (''Flat100'', ''4+4-'', ''any'')" by code_simp
  from a b c d e f show ?thesis by blast
qed

text \<open>
  Claim C6, amended. \<open>buildCombos\<close> produces 36 configurations: twelve groups in the order
  Flat100/none, Pct5/none, Flat100/4+4-, Flat5pct/4+4-, Flat100/5+5-, Flat5pct/5+5-,
  Fibo1/none, Fibo1/4+4-, Fibo1/5+5-, Fibo5/none, Fibo5/4+4-, Fibo5/5+5-, each with the
  odds conditions any, underdog, favorite in that order. The staking policies are flat 100,
  5% of the current bankroll, flat 50 (5% of the starting bankroll), Fibonacci with unit 1
  and Fibonacci with unit 5. \<open>main\<close> runs each configuration, in that order, at the
  thresholds 5, 10, ..., 50, 75 in ascending order, and always returns one row per run in
  that order.
\<close>

theorem buildCombos_order:
  "map combo_key buildCombos =
     concat (map (\<lambda>gh. map (\<lambda>oc. (fst gh, snd gh, oc)) [''any'', ''underdog'', ''favorite''])
       [(''Flat100'', ''none''), (''Pct5'', ''none''),
        (''Flat100'', ''4+4-''), (''Flat5pct'', ''4+4-''),
        (''Flat100'', ''5+5-''), (''Flat5pct'', ''5+5-''),
        (''Fibo1'', ''none''), (''Fibo1'', ''4+4-''), (''Fibo1'', ''5+5-''),
        (''Fibo5'', ''none''), (''Fibo5'', ''4+4-''), (''Fibo5'', ''5+5-'')]) \<and>
   set (map policy_of buildCombos) =
     set [(''Flat100'', ''flat'', 100, 0, 0), (''Pct5'', ''pct_bankroll'', 0, 5 / 100, 0),
      (''Flat5pct'', ''flat'', 50, 0, 0), (''Fibo1'', ''fibonacci'', 0, 0, 1),
      (''Fibo5'', ''fibonacci'', 0, 0, 5)] \<and>
   sweep_pairs =
     concat (map (\<lambda>c. map (Pair c) [5, 10, 15, 20, 25, 30, 35, 40, 45, 50, 75]) buildCombos) \<and>
   (\<exists>rows fibCache'. main_rows ms = Inr (rows, fibCache') \<and> map row_key rows = map pair_key sweep_pairs)"
proof -
  have a: "map combo_key buildCombos =
     concat (map (\<lambda>gh. map (\<lambda>oc. (fst gh, snd gh, oc)) [''any'', ''underdog'', ''favorite''])
       [(''Flat100'', ''none''), (''Pct5'', ''none''),
        (''Flat100'', ''4+4-''), (''Flat5pct'', ''4+4-''),
        (''Flat100'', ''5+5-''), (''Flat5pct'', ''5+5-''),
        (''Fibo1'', ''none''), (''Fibo1'', ''4+4-''), (''Fibo1'', ''5+5-''),
        (''Fibo5'', ''none''), (''Fibo5'', ''4+4-''), (''Fibo5'', ''5+5-'')])"
    by code_simp
  have b: "set (map policy_of buildCombos) =
     set [(''Flat100'', ''flat'', 100, 0, 0), (''Pct5'', ''pct_bankroll'', 0, 5 / 100, 0),
      (''Flat5pct'', ''flat'', 50, 0, 0), (''Fibo1'', ''fibonacci'', 0, 0, 1),
      (''Fibo5'', ''fibonacci'', 0, 0, 5)]"
    by code_simp
  have c: "sweep_pairs =
     concat (map (\<lambda>c. map (Pair c) [5, 10, 15, 20, 25, 30, 35, 40, 45, 50, 75]) buildCombos)"
    by (simp add: sweep_pairs_def DELTA_THRESHOLDS_def)
  have d: "\<exists>rows fibCache'. main_rows ms = Inr (rows, fibCache') \<and> map row_key rows = map pair_key sweep_pairs"
    unfolding main_rows_def by (rule run_sweep_total[OF sweep_pairs_known])
  from a b c d show ?thesis by blast
qed

section \<open>Verification: the per-hero advantage\<close>

lemma one_win_build: "buildMatrix [one_win] 10 sample_heroMap = Inr one_win_out"
  by code_simp

lemma computeAdvantage_step:
  "foldl (\<lambda>total enemyId. total + g enemyId) a es = a + sum_list (map g es)" for a :: rat
  by (induction es arbitrary: a) (simp_all add: algebra_simps)

lemma computeAdvantage_transposed:
  "computeAdvantage heroId enemyIds winRates =
     sum_list (map (\<lambda>enemyId. spec_hero_advantage winRates enemyId [heroId]) enemyIds)"
proof -
  have "(\<lambda>total enemyId.
              case js_nth winRates enemyId of
                None \<Rightarrow> total
              | Some row \<Rightarrow>
                  (case js_nth row heroId of
                     None \<Rightarrow> total
                   | Some None \<Rightarrow> total
                   | Some (Some cell) \<Rightarrow>
                       (case cell_adv cell of None \<Rightarrow> total | Some val \<Rightarrow> total + val)))
        = (\<lambda>total enemyId. total + spec_hero_advantage winRates enemyId [heroId])"
    by (intro ext) (simp add: spec_hero_advantage_def split: option.splits)
  then show ?thesis
    unfolding computeAdvantage_def by (simp add: computeAdvantage_step)
qed

text \<open>
  Claim C4, evaluated on the code. \<open>computeAdvantage\<close> reads \<open>winRates[enemyId][heroId]\<close>,
  the enemy's row indexed by the hero, not the hero's own row indexed by the enemy. On the
  matrix that \<open>buildMatrix\<close> makes from one match won by heroes 0 to 4 against heroes 5 to
  9, hero 0 has an advantage of +50 against each opponent, 250 in sum; \<open>computeAdvantage\<close>
  returns -250, and \<open>computeTeamCounts\<close> counts the five winners as five negative heroes.
  \<open>heroScore\<close> of the delta-percentage simulator reads the hero's own row and adds +250.
\<close>

theorem computeAdvantage_reads_enemy_row:
  "buildMatrix [one_win] 10 sample_heroMap = Inr one_win_out \<and>
   out_winRates one_win_out = one_win_rates \<and>
   spec_hero_advantage one_win_rates 0 [5, 6, 7, 8, 9] = 250 \<and>
   computeAdvantage 0 [5, 6, 7, 8, 9] one_win_rates = - 250 \<and>
   computeTeamCounts [0, 1, 2, 3, 4] [5, 6, 7, 8, 9] one_win_rates = (0, 5) \<and>
   heroScore one_win_cs ''Axe'' [''Sven'', ''Tiny'', ''Viper'', ''Zeus'', ''Pudge''] = Inr (100 + 250)"
proof -
  have b: "out_winRates one_win_out = one_win_rates" by (simp add: one_win_out_def)
  have c: "spec_hero_advantage one_win_rates 0 [5, 6, 7, 8, 9] = 250" by code_simp
  have d: "computeAdvantage 0 [5, 6, 7, 8, 9] one_win_rates = - 250" by code_simp
  have e: "computeTeamCounts [0, 1, 2, 3, 4] [5, 6, 7, 8, 9] one_win_rates = (0, 5)" by code_simp
  have f: "heroScore one_win_cs ''Axe'' [''Sven'', ''Tiny'', ''Viper'', ''Zeus'', ''Pudge''] = Inr (100 + 250)"
    by code_simp
  from one_win_build b c d e f show ?thesis by blast
qed

section \<open>Verification: the matrix builder\<close>














end
